theory Spec2Isabelle
  imports Main
begin

section \<open>The Freshdesk API client (lib/client.js)\<close>

text \<open>
  The client turns a method call into a description of an HTTP request, hands it to the
  transport (the \<^verbatim>\<open>request\<close> package) and classifies what the transport reports back
  before it calls the completion callback of the caller. The embedding follows
  \<^verbatim>\<open>lib/client.js\<close> function by function: \<^verbatim>\<open>FreshdeskError\<close>,
  \<^verbatim>\<open>createResponseHandler\<close>, \<^verbatim>\<open>makeRequest\<close> and the methods of the
  prototype of \<^verbatim>\<open>Freshdesk\<close>.
\<close>

subsection \<open>JavaScript values\<close>

text \<open>
  The values the client handles. A function value is opaque: it is known by an identifier
  only. \<open>ErrorInstance m\<close> is an instance of the built-in \<^verbatim>\<open>Error\<close> with message
  \<open>m\<close>, as the transport reports it. \<open>FreshdeskErrorInstance n m d\<close> is an object
  made by \<^verbatim>\<open>new FreshdeskError\<close>, with its fields \<^verbatim>\<open>name\<close>, \<^verbatim>\<open>message\<close> and
  \<^verbatim>\<open>data\<close>; the field \<^verbatim>\<open>stack\<close>, a text of the run-time system, is left out.
  Numbers are the integers and \<^verbatim>\<open>NaN\<close>. An object literal is the list of its own
  properties.
\<close>

datatype jsval =
    Undefined
  | Null
  | Bool bool
  | Num int
  | NaN
  | Str string
  | Arr "jsval list"
  | Obj "(string \<times> jsval) list"
  | Function nat
  | ErrorInstance string
  | FreshdeskErrorInstance string jsval jsval

text \<open>What a condition \<^verbatim>\<open>if (v)\<close> or an operand of \<^verbatim>\<open>||\<close> takes for true.\<close>

fun truthy :: "jsval \<Rightarrow> bool" where
  "truthy Undefined = False"
| "truthy Null = False"
| "truthy (Bool b) = b"
| "truthy (Num n) = (n \<noteq> 0)"
| "truthy NaN = False"
| "truthy (Str s) = (s \<noteq> [])"
| "truthy v = True"

datatype exn =
    TypeError string
  | Thrown jsval

text \<open>
  The read \<^verbatim>\<open>data.description\<close>. On \<^verbatim>\<open>undefined\<close> and \<^verbatim>\<open>null\<close> a property read
  throws a TypeError; on an object it gives the property, or \<^verbatim>\<open>undefined\<close> when
  the object has none of that name; the other values have no property
  \<^verbatim>\<open>description\<close>.
\<close>

fun get_description :: "jsval \<Rightarrow> exn + jsval" where
  "get_description Undefined = Inl (TypeError ''Cannot read property description of undefined'')"
| "get_description Null = Inl (TypeError ''Cannot read property description of null'')"
| "get_description (Obj kvs) =
     (case map_of kvs ''description'' of None \<Rightarrow> Inr Undefined | Some v \<Rightarrow> Inr v)"
| "get_description v = Inr Undefined"

text \<open>
  The global \<^verbatim>\<open>JSON\<close> object is not code of the client; the client is given it.
  \<open>parse JSON b = None\<close> stands for \<^verbatim>\<open>JSON.parse(b)\<close> throwing;
  \<^verbatim>\<open>JSON.stringify\<close> gives a text, or \<^verbatim>\<open>undefined\<close> (for a function), or throws.
\<close>

record json_api =
  parse :: "jsval \<Rightarrow> jsval option"
  stringify :: "jsval \<Rightarrow> exn + jsval"

subsection \<open>Requests, responses and the effects of a call\<close>

text \<open>The \<^verbatim>\<open>request\<close> property of a response; the trace lines read its path and body.\<close>

record request_obj =
  req_path :: jsval
  req_body :: jsval

record response =
  statusCode :: int
  resp_request :: request_obj

text \<open>
  The \<^verbatim>\<open>options\<close> object of \<^verbatim>\<open>makeRequest\<close>. \<open>opt_body = None\<close> is an
  object without the property \<^verbatim>\<open>body\<close>.
\<close>

record options =
  opt_method :: string
  opt_headers :: "(string \<times> string) list"
  opt_url :: string
  opt_qs :: jsval
  opt_body :: "jsval option"

text \<open>A trace line is a template literal: its fixed texts and the values put between them.\<close>

datatype piece = Lit string | Val jsval

text \<open>
  What a call leaves behind: the lines given to \<^verbatim>\<open>debug\<close>, the calls of callbacks
  (the identifier of the function and its arguments) and the requests handed to the
  transport, each in the order of time.
\<close>

record world =
  debug_log :: "piece list list"
  cb_calls :: "(nat \<times> jsval list) list"
  sent :: "options list"

definition debug :: "piece list \<Rightarrow> world \<Rightarrow> world" where
  "debug line w = w\<lparr>debug_log := debug_log w @ [line]\<rparr>"

text \<open>
  The call \<^verbatim>\<open>cb(args)\<close>: a function is called, and the call is recorded; anything else
  is not callable and the call throws a TypeError. The callback of the caller is taken
  to return \<^verbatim>\<open>undefined\<close> and not to throw.
\<close>

fun invoke :: "jsval \<Rightarrow> jsval list \<Rightarrow> world \<Rightarrow> (exn + jsval) \<times> world" where
  "invoke (Function k) args w = (Inr Undefined, w\<lparr>cb_calls := cb_calls w @ [(k, args)]\<rparr>)"
| "invoke v args w = (Inl (TypeError ''cb is not a function''), w)"

subsection \<open>FreshdeskError\<close>

definition FreshdeskError :: "jsval \<Rightarrow> jsval \<Rightarrow> jsval" where
  "FreshdeskError message data =
     FreshdeskErrorInstance ''FreshdeskError''
       (if truthy message then message else Str ''Error in Freshdesk's client API'')
       data"

subsection \<open>createResponseHandler\<close>

text \<open>
  The handler takes what the transport reports: \<open>error\<close>, \<open>response\<close>
  (\<open>None\<close> is \<^verbatim>\<open>undefined\<close>) and \<open>body\<close>. The template literal of a trace line is
  evaluated before \<^verbatim>\<open>debug\<close> is called, so a read of \<^verbatim>\<open>response.request\<close> on an
  undefined response throws there.
\<close>

definition createResponseHandler ::
  "json_api \<Rightarrow> jsval \<Rightarrow> jsval \<Rightarrow> response option \<Rightarrow> jsval \<Rightarrow> world \<Rightarrow> (exn + jsval) \<times> world"
where
  "createResponseHandler JSON cb error response body w =
    (if truthy error then
       (case response of
          None \<Rightarrow> (Inl (TypeError ''Cannot read property request of undefined''), w)
        | Some r \<Rightarrow>
            invoke cb [error]
              (debug [Lit ''Unexpected status ['', Val error,
                      Lit ''], req path ['', Val (req_path (resp_request r)),
                      Lit ''] raw body: '', Val (req_body (resp_request r))] w))
     else
       (case response of
          None \<Rightarrow> (Inl (TypeError ''Cannot read property statusCode of undefined''), w)
        | Some r \<Rightarrow>
            if statusCode r = 200 \<or> statusCode r = 201 then
              (case parse JSON body of
                 None \<Rightarrow>
                   invoke cb [FreshdeskError (Str ''Not a JSON response from API'') Null]
                     (debug [Lit ''Not a JSON resp with valid status ['', Val (Num (statusCode r)),
                             Lit ''], req path ['', Val (req_path (resp_request r)),
                             Lit ''] raw body: '', Val (req_body (resp_request r))] w)
               | Some data \<Rightarrow> invoke cb [Null, data] w)
            else if statusCode r = 204 then
              invoke cb [Null, Null] w
            else \<comment> \<open>\<^verbatim>\<open>case 409:\<close> and \<^verbatim>\<open>default:\<close> share one body\<close>
              (case parse JSON body of
                 None \<Rightarrow>
                   invoke cb [FreshdeskError (Str ''Not a JSON response from API'') Null]
                     (debug [Lit ''Not a JSON resp for unexpected status ['', Val (Num (statusCode r)),
                             Lit ''], req path ['', Val (req_path (resp_request r)),
                             Lit ''] raw body: '', Val (req_body (resp_request r))] w)
               | Some data \<Rightarrow>
                   (let w' = debug [Lit ''Unexpected/Error status ['', Val (Num (statusCode r)),
                                    Lit ''], req path ['', Val (req_path (resp_request r)),
                                    Lit ''] raw body: '', Val (req_body (resp_request r))] w
                    in case get_description data of
                         Inl e \<Rightarrow> (Inl e, w')
                       | Inr description \<Rightarrow> invoke cb [FreshdeskError description data] w'))))"

subsection \<open>makeRequest\<close>

text \<open>
  \<open>transport\<close> stands for the \<^verbatim>\<open>request\<close> package: for the options it is given it
  reports one outcome \<open>(error, response, body)\<close> to the handler, once. The result
  of the model is \<open>Inl\<close> when an exception was thrown, by \<^verbatim>\<open>makeRequest\<close> itself or
  by the handler when the transport called it.
\<close>

type_synonym outcome = "jsval \<times> response option \<times> jsval"

definition makeRequest ::
  "json_api \<Rightarrow> (options \<Rightarrow> outcome) \<Rightarrow> string \<Rightarrow> string \<Rightarrow> string \<Rightarrow> jsval \<Rightarrow> jsval \<Rightarrow> jsval
     \<Rightarrow> world \<Rightarrow> (exn + jsval) \<times> world"
where
  "makeRequest JSON transport method auth url qs data cb w =
    (let options = \<lparr>opt_method = method,
                    opt_headers = [(''Content-Type'', ''application/json''), (''Authorization'', auth)],
                    opt_url = url,
                    opt_qs = qs,
                    opt_body = None\<rparr>;
         options' = (if truthy data
                     then (case stringify JSON data of
                             Inl e \<Rightarrow> Inl e
                           | Inr text \<Rightarrow> Inr (options\<lparr>opt_body := Some text\<rparr>))
                     else Inr options)
     in case options' of
          Inl e \<Rightarrow> (Inl e, w)
        | Inr opts \<Rightarrow>
            (case transport opts of
               (error, response, body) \<Rightarrow>
                 createResponseHandler JSON cb error response body (w\<lparr>sent := sent w @ [opts]\<rparr>)))"

subsection \<open>The client and its methods\<close>

text \<open>
  A client holds the base URL and the credential (the field \<^verbatim>\<open>_auth\<close>), both texts.
  An identifier put into a URL is an integer, as the documentation of the methods has
  it (\<open>ident\<close> stands for the parameter \<^verbatim>\<open>id\<close>); the template literal writes
  it in decimal.
\<close>

record client =
  baseUrl :: string
  private_auth :: string

fun digits :: "nat \<Rightarrow> string" where
  "digits n =
     (if n < 10 then [char_of (48 + n)]
      else digits (n div 10) @ [char_of (48 + n mod 10)])"

definition ToString :: "int \<Rightarrow> string" where
  "ToString i = (if i < 0 then CHR ''-'' # digits (nat (- i)) else digits (nat i))"

type_synonym call = "world \<Rightarrow> (exn + jsval) \<times> world"

definition listAllTickets ::
  "json_api \<Rightarrow> (options \<Rightarrow> outcome) \<Rightarrow> client \<Rightarrow> jsval \<Rightarrow> jsval \<Rightarrow> call" where
  "listAllTickets JSON transport this params cb =
     makeRequest JSON transport ''GET'' (private_auth this)
       (baseUrl this @ ''/api/v2/tickets'') params Null cb"

definition listAllTicketFields ::
  "json_api \<Rightarrow> (options \<Rightarrow> outcome) \<Rightarrow> client \<Rightarrow> jsval \<Rightarrow> call" where
  "listAllTicketFields JSON transport this cb =
     makeRequest JSON transport ''GET'' (private_auth this)
       (baseUrl this @ ''/api/v2/ticket_fields'') Null Null cb"

definition createTicket ::
  "json_api \<Rightarrow> (options \<Rightarrow> outcome) \<Rightarrow> client \<Rightarrow> jsval \<Rightarrow> jsval \<Rightarrow> call" where
  "createTicket JSON transport this data cb =
     makeRequest JSON transport ''POST'' (private_auth this)
       (baseUrl this @ ''/api/v2/tickets'') Null data cb"

definition getTicket ::
  "json_api \<Rightarrow> (options \<Rightarrow> outcome) \<Rightarrow> client \<Rightarrow> int \<Rightarrow> jsval \<Rightarrow> call" where
  "getTicket JSON transport this ident cb =
     makeRequest JSON transport ''GET'' (private_auth this)
       (baseUrl this @ ''/api/v2/tickets/'' @ ToString ident) Null Null cb"

definition updateTicket ::
  "json_api \<Rightarrow> (options \<Rightarrow> outcome) \<Rightarrow> client \<Rightarrow> int \<Rightarrow> jsval \<Rightarrow> jsval \<Rightarrow> call" where
  "updateTicket JSON transport this ident data cb =
     makeRequest JSON transport ''PUT'' (private_auth this)
       (baseUrl this @ ''/api/v2/tickets/'' @ ToString ident) Null data cb"

definition deleteTicket ::
  "json_api \<Rightarrow> (options \<Rightarrow> outcome) \<Rightarrow> client \<Rightarrow> int \<Rightarrow> jsval \<Rightarrow> call" where
  "deleteTicket JSON transport this ident cb =
     makeRequest JSON transport ''DELETE'' (private_auth this)
       (baseUrl this @ ''/api/v2/tickets/'' @ ToString ident) Null Null cb"

definition restoreTicket ::
  "json_api \<Rightarrow> (options \<Rightarrow> outcome) \<Rightarrow> client \<Rightarrow> int \<Rightarrow> jsval \<Rightarrow> call" where
  "restoreTicket JSON transport this ident cb =
     makeRequest JSON transport ''PUT'' (private_auth this)
       (baseUrl this @ ''/api/v2/tickets/'' @ ToString ident @ ''/restore'') Null Null cb"

text \<open>
  \<^verbatim>\<open>listAllConversations\<close> passes five arguments to \<^verbatim>\<open>makeRequest\<close>: the callback
  stands where \<^verbatim>\<open>data\<close> is expected, and the parameter \<^verbatim>\<open>cb\<close> of
  \<^verbatim>\<open>makeRequest\<close> is \<^verbatim>\<open>undefined\<close>.
\<close>

definition listAllConversations ::
  "json_api \<Rightarrow> (options \<Rightarrow> outcome) \<Rightarrow> client \<Rightarrow> int \<Rightarrow> jsval \<Rightarrow> call" where
  "listAllConversations JSON transport this ident cb =
     makeRequest JSON transport ''GET'' (private_auth this)
       (baseUrl this @ ''/api/v2/tickets/'' @ ToString ident @ ''/conversations'') Null cb Undefined"

definition listAllTimeEntries ::
  "json_api \<Rightarrow> (options \<Rightarrow> outcome) \<Rightarrow> client \<Rightarrow> int \<Rightarrow> jsval \<Rightarrow> call" where
  "listAllTimeEntries JSON transport this ident cb =
     makeRequest JSON transport ''GET'' (private_auth this)
       (baseUrl this @ ''/api/v2/tickets/'' @ ToString ident @ ''/time_entries'') Null Null cb"

definition createReply ::
  "json_api \<Rightarrow> (options \<Rightarrow> outcome) \<Rightarrow> client \<Rightarrow> int \<Rightarrow> jsval \<Rightarrow> jsval \<Rightarrow> call" where
  "createReply JSON transport this ident data cb =
     makeRequest JSON transport ''POST'' (private_auth this)
       (baseUrl this @ ''/api/v2/tickets/'' @ ToString ident @ ''/reply'') Null data cb"

definition createNote ::
  "json_api \<Rightarrow> (options \<Rightarrow> outcome) \<Rightarrow> client \<Rightarrow> int \<Rightarrow> jsval \<Rightarrow> jsval \<Rightarrow> call" where
  "createNote JSON transport this ident data cb =
     makeRequest JSON transport ''POST'' (private_auth this)
       (baseUrl this @ ''/api/v2/tickets/'' @ ToString ident @ ''/notes'') Null data cb"

definition updateConversation ::
  "json_api \<Rightarrow> (options \<Rightarrow> outcome) \<Rightarrow> client \<Rightarrow> int \<Rightarrow> jsval \<Rightarrow> jsval \<Rightarrow> call" where
  "updateConversation JSON transport this ident data cb =
     makeRequest JSON transport ''PUT'' (private_auth this)
       (baseUrl this @ ''/api/v2/conversations/'' @ ToString ident) Null data cb"

definition deleteConversation ::
  "json_api \<Rightarrow> (options \<Rightarrow> outcome) \<Rightarrow> client \<Rightarrow> int \<Rightarrow> jsval \<Rightarrow> call" where
  "deleteConversation JSON transport this ident cb =
     makeRequest JSON transport ''DELETE'' (private_auth this)
       (baseUrl this @ ''/api/v2/conversations/'' @ ToString ident) Null Null cb"

definition createContact ::
  "json_api \<Rightarrow> (options \<Rightarrow> outcome) \<Rightarrow> client \<Rightarrow> jsval \<Rightarrow> jsval \<Rightarrow> call" where
  "createContact JSON transport this data cb =
     makeRequest JSON transport ''POST'' (private_auth this)
       (baseUrl this @ ''/api/v2/contacts'') Null data cb"

definition getContact ::
  "json_api \<Rightarrow> (options \<Rightarrow> outcome) \<Rightarrow> client \<Rightarrow> int \<Rightarrow> jsval \<Rightarrow> call" where
  "getContact JSON transport this ident cb =
     makeRequest JSON transport ''GET'' (private_auth this)
       (baseUrl this @ ''/api/v2/contacts/'' @ ToString ident) Null Null cb"

definition listAllContacts ::
  "json_api \<Rightarrow> (options \<Rightarrow> outcome) \<Rightarrow> client \<Rightarrow> jsval \<Rightarrow> jsval \<Rightarrow> call" where
  "listAllContacts JSON transport this params cb =
     makeRequest JSON transport ''GET'' (private_auth this)
       (baseUrl this @ ''/api/v2/contacts'') params Null cb"

definition updateContact ::
  "json_api \<Rightarrow> (options \<Rightarrow> outcome) \<Rightarrow> client \<Rightarrow> int \<Rightarrow> jsval \<Rightarrow> jsval \<Rightarrow> call" where
  "updateContact JSON transport this ident data cb =
     makeRequest JSON transport ''PUT'' (private_auth this)
       (baseUrl this @ ''/api/v2/contacts/'' @ ToString ident) Null data cb"

definition deleteContact ::
  "json_api \<Rightarrow> (options \<Rightarrow> outcome) \<Rightarrow> client \<Rightarrow> int \<Rightarrow> jsval \<Rightarrow> call" where
  "deleteContact JSON transport this ident cb =
     makeRequest JSON transport ''DELETE'' (private_auth this)
       (baseUrl this @ ''/api/v2/contacts/'' @ ToString ident) Null Null cb"

definition makeAgent ::
  "json_api \<Rightarrow> (options \<Rightarrow> outcome) \<Rightarrow> client \<Rightarrow> int \<Rightarrow> jsval \<Rightarrow> call" where
  "makeAgent JSON transport this ident cb =
     makeRequest JSON transport ''PUT'' (private_auth this)
       (baseUrl this @ ''/api/v2/contacts/'' @ ToString ident @ ''/make_agent'') Null Null cb"

definition listAllContactFields ::
  "json_api \<Rightarrow> (options \<Rightarrow> outcome) \<Rightarrow> client \<Rightarrow> jsval \<Rightarrow> call" where
  "listAllContactFields JSON transport this cb =
     makeRequest JSON transport ''GET'' (private_auth this)
       (baseUrl this @ ''/api/v2/contact_fields'') Null Null cb"

definition createCompany ::
  "json_api \<Rightarrow> (options \<Rightarrow> outcome) \<Rightarrow> client \<Rightarrow> jsval \<Rightarrow> jsval \<Rightarrow> call" where
  "createCompany JSON transport this data cb =
     makeRequest JSON transport ''POST'' (private_auth this)
       (baseUrl this @ ''/api/v2/companies'') Null data cb"

definition getCompany ::
  "json_api \<Rightarrow> (options \<Rightarrow> outcome) \<Rightarrow> client \<Rightarrow> int \<Rightarrow> jsval \<Rightarrow> call" where
  "getCompany JSON transport this ident cb =
     makeRequest JSON transport ''GET'' (private_auth this)
       (baseUrl this @ ''/api/v2/companies/'' @ ToString ident) Null Null cb"

definition listAllCompanies ::
  "json_api \<Rightarrow> (options \<Rightarrow> outcome) \<Rightarrow> client \<Rightarrow> jsval \<Rightarrow> call" where
  "listAllCompanies JSON transport this cb =
     makeRequest JSON transport ''GET'' (private_auth this)
       (baseUrl this @ ''/api/v2/companies'') Null Null cb"

definition updateCompany ::
  "json_api \<Rightarrow> (options \<Rightarrow> outcome) \<Rightarrow> client \<Rightarrow> int \<Rightarrow> jsval \<Rightarrow> jsval \<Rightarrow> call" where
  "updateCompany JSON transport this ident data cb =
     makeRequest JSON transport ''PUT'' (private_auth this)
       (baseUrl this @ ''/api/v2/companies/'' @ ToString ident) Null data cb"

text \<open>\<^verbatim>\<open>deleteCompany\<close> has a parameter \<^verbatim>\<open>data\<close> that it does not use.\<close>

definition deleteCompany ::
  "json_api \<Rightarrow> (options \<Rightarrow> outcome) \<Rightarrow> client \<Rightarrow> int \<Rightarrow> jsval \<Rightarrow> jsval \<Rightarrow> call" where
  "deleteCompany JSON transport this ident data cb =
     makeRequest JSON transport ''DELETE'' (private_auth this)
       (baseUrl this @ ''/api/v2/companies/'' @ ToString ident) Null Null cb"

subsection \<open>Values for the examples\<close>

text \<open>
  The examples need a \<^verbatim>\<open>JSON\<close> object to run with. \<open>JSON_sample\<close> has the values of
  \<^verbatim>\<open>JSON.parse\<close> and \<^verbatim>\<open>JSON.stringify\<close> at the arguments the examples use: the
  texts listed are JSON, \<^verbatim>\<open>not json\<close> and the empty text are not, and a function has
  no JSON text. It is used at these arguments only; the general theorems hold for every
  \<open>JSON\<close>.
\<close>

definition JSON_sample :: json_api where
  "JSON_sample =
     \<lparr>parse = (\<lambda>b.
          if b = Str ''null'' then Some Null
          else if b = Str ''[]'' then Some (Arr [])
          else if b = Str ''{}'' then Some (Obj [])
          else if b = Str ''{\"description\":\"\"}'' then Some (Obj [(''description'', Str [])])
          else if b = Str ''{\"description\":\"Name has already been taken\"}''
            then Some (Obj [(''description'', Str ''Name has already been taken'')])
          else None),
      stringify = (\<lambda>v.
          if v = Num 0 then Inr (Str ''0'')
          else if v = Obj [(''name'', Str ''Acme'')] then Inr (Str ''{\"name\":\"Acme\"}'')
          else Inr Undefined)\<rparr>"

definition empty_world :: world where
  "empty_world = \<lparr>debug_log = [], cb_calls = [], sent = []\<rparr>"

definition sample_response :: "int \<Rightarrow> response" where
  "sample_response n =
     \<lparr>statusCode = n,
      resp_request = \<lparr>req_path = Str ''/api/v2/tickets'', req_body = Undefined\<rparr>\<rparr>"

definition sample_client :: client where
  "sample_client = \<lparr>baseUrl = ''https://demo.freshdesk.com'', private_auth = ''Basic eDpY''\<rparr>"

definition sample_transport :: "options \<Rightarrow> outcome" where
  "sample_transport opts = (Null, Some (sample_response 200), Str ''[]'')"

section \<open>The branches of the response handler\<close>

text \<open>One equation for each path through \<^verbatim>\<open>createResponseHandler\<close>.\<close>

lemma handler_transport_error:
  "truthy error \<Longrightarrow>
   createResponseHandler JSON cb error (Some r) body w =
     invoke cb [error]
       (debug [Lit ''Unexpected status ['', Val error,
               Lit ''], req path ['', Val (req_path (resp_request r)),
               Lit ''] raw body: '', Val (req_body (resp_request r))] w)"
  by (simp add: createResponseHandler_def)

lemma handler_transport_error_undefined_response:
  "truthy error \<Longrightarrow>
   createResponseHandler JSON cb error None body w =
     (Inl (TypeError ''Cannot read property request of undefined''), w)"
  by (simp add: createResponseHandler_def)

lemma handler_success_parsed:
  "\<not> truthy error \<Longrightarrow> statusCode r = 200 \<or> statusCode r = 201 \<Longrightarrow>
   parse JSON body = Some data \<Longrightarrow>
   createResponseHandler JSON cb error (Some r) body w = invoke cb [Null, data] w"
  by (auto simp add: createResponseHandler_def)

lemma handler_success_not_json:
  "\<not> truthy error \<Longrightarrow> statusCode r = 200 \<or> statusCode r = 201 \<Longrightarrow>
   parse JSON body = None \<Longrightarrow>
   createResponseHandler JSON cb error (Some r) body w =
     invoke cb [FreshdeskError (Str ''Not a JSON response from API'') Null]
       (debug [Lit ''Not a JSON resp with valid status ['', Val (Num (statusCode r)),
               Lit ''], req path ['', Val (req_path (resp_request r)),
               Lit ''] raw body: '', Val (req_body (resp_request r))] w)"
  by (auto simp add: createResponseHandler_def)

lemma handler_no_content:
  "\<not> truthy error \<Longrightarrow> statusCode r = 204 \<Longrightarrow>
   createResponseHandler JSON cb error (Some r) body w = invoke cb [Null, Null] w"
  by (simp add: createResponseHandler_def)

lemma handler_other_not_json:
  "\<not> truthy error \<Longrightarrow>
   statusCode r \<noteq> 200 \<Longrightarrow> statusCode r \<noteq> 201 \<Longrightarrow> statusCode r \<noteq> 204 \<Longrightarrow>
   parse JSON body = None \<Longrightarrow>
   createResponseHandler JSON cb error (Some r) body w =
     invoke cb [FreshdeskError (Str ''Not a JSON response from API'') Null]
       (debug [Lit ''Not a JSON resp for unexpected status ['', Val (Num (statusCode r)),
               Lit ''], req path ['', Val (req_path (resp_request r)),
               Lit ''] raw body: '', Val (req_body (resp_request r))] w)"
  by (simp add: createResponseHandler_def)

lemma handler_other_parsed:
  "\<not> truthy error \<Longrightarrow>
   statusCode r \<noteq> 200 \<Longrightarrow> statusCode r \<noteq> 201 \<Longrightarrow> statusCode r \<noteq> 204 \<Longrightarrow>
   parse JSON body = Some data \<Longrightarrow> get_description data = Inr description \<Longrightarrow>
   createResponseHandler JSON cb error (Some r) body w =
     invoke cb [FreshdeskError description data]
       (debug [Lit ''Unexpected/Error status ['', Val (Num (statusCode r)),
               Lit ''], req path ['', Val (req_path (resp_request r)),
               Lit ''] raw body: '', Val (req_body (resp_request r))] w)"
  by (simp add: createResponseHandler_def)

lemma handler_other_parsed_throws:
  "\<not> truthy error \<Longrightarrow>
   statusCode r \<noteq> 200 \<Longrightarrow> statusCode r \<noteq> 201 \<Longrightarrow> statusCode r \<noteq> 204 \<Longrightarrow>
   parse JSON body = Some data \<Longrightarrow> get_description data = Inl e \<Longrightarrow>
   createResponseHandler JSON cb error (Some r) body w =
     (Inl e,
      debug [Lit ''Unexpected/Error status ['', Val (Num (statusCode r)),
             Lit ''], req path ['', Val (req_path (resp_request r)),
             Lit ''] raw body: '', Val (req_body (resp_request r))] w)"
  by (simp add: createResponseHandler_def)

lemma cb_calls_debug: "cb_calls (debug line w) = cb_calls w"
  by (simp add: debug_def)

lemma sent_debug: "sent (debug line w) = sent w"
  by (simp add: debug_def)

lemma get_description_defined:
  "data \<noteq> Null \<Longrightarrow> data \<noteq> Undefined \<Longrightarrow> \<exists>d. get_description data = Inr d"
  by (cases data) (auto split: option.splits)

text \<open>The handler hands nothing to the transport.\<close>

lemma handler_sent:
  "sent (snd (createResponseHandler JSON cb error response body w)) = sent w"
  by (cases cb)
     (auto simp: createResponseHandler_def debug_def Let_def split: option.splits sum.splits)

text \<open>
  A run of the handler that returns has called \<open>cb\<close>, a function, once; a run that
  throws has called nothing.
\<close>

lemma handler_once:
  "case createResponseHandler JSON cb error response body w of
     (Inr v, w') \<Rightarrow>
       v = Undefined \<and> (\<exists>k args. cb = Function k \<and> cb_calls w' = cb_calls w @ [(k, args)])
   | (Inl e, w') \<Rightarrow> cb_calls w' = cb_calls w"
  by (cases cb)
     (auto simp: createResponseHandler_def debug_def Let_def split: option.splits sum.splits)

text \<open>
  The same for a whole call of \<^verbatim>\<open>makeRequest\<close>: no run calls a callback twice, a run
  that returns has called \<open>cb\<close> once, and a run that throws has called nothing.
\<close>

lemma makeRequest_once:
  "case makeRequest JSON transport method auth url qs data cb w of
     (Inr v, w') \<Rightarrow>
       v = Undefined \<and> (\<exists>k args. cb = Function k \<and> cb_calls w' = cb_calls w @ [(k, args)])
   | (Inl e, w') \<Rightarrow> cb_calls w' = cb_calls w"
proof -
  have h: "case res of
             Inr v \<Rightarrow>
               v = Undefined \<and>
               (\<exists>k args. cb = Function k \<and> cb_calls w' = cb_calls w @ [(k, args)])
           | Inl e \<Rightarrow> cb_calls w' = cb_calls w"
    if "createResponseHandler JSON cb error response body (w\<lparr>sent := sent w @ [opts]\<rparr>) =
          (res, w')"
    for error response body opts res w'
    using that
      handler_once [where JSON = JSON and cb = cb and error = error
                      and response = response and body = body
                      and w = "w\<lparr>sent := sent w @ [opts]\<rparr>"]
    by (auto split: sum.splits)
  show ?thesis
    unfolding makeRequest_def Let_def
    by (cases "truthy data"; cases "stringify JSON data")
       (auto split: prod.split intro: h)
qed

section \<open>The claims\<close>

text \<open>
  C1. The claim: for every method of the client and every outcome of the transport, the
  callback of the caller is called exactly once; in particular for
  \<^verbatim>\<open>listAllConversations\<close> called with a ticket id and a callback. The code does not do
  this. \<^verbatim>\<open>listAllConversations\<close> passes the callback in the place of \<^verbatim>\<open>data\<close>, so
  for every \<open>JSON\<close>, every transport, every client, id, callback and starting state, the
  call ends in an exception and no callback has been called.
\<close>

theorem listAllConversations_never_calls_back:
  "isl (fst (listAllConversations JSON transport this ident cb w)) \<and>
   cb_calls (snd (listAllConversations JSON transport this ident cb w)) = cb_calls w"
proof -
  have h: "isl (fst (createResponseHandler JSON Undefined error response body v)) \<and>
           cb_calls (snd (createResponseHandler JSON Undefined error response body v)) = cb_calls v"
    for error response body v
    using handler_once [where JSON = JSON and cb = Undefined and error = error
                          and response = response and body = body and w = v]
    by (auto split: prod.splits sum.splits)
  show ?thesis
    by (auto simp: listAllConversations_def makeRequest_def Let_def h
             split: sum.splits prod.splits)
qed

text \<open>
  C2. The claim: when the transport reports an error, with or without a response, the
  handler gives that error to the callback, parses nothing, and the trace line does not
  change the control flow. The code does not do this when no response comes with the
  error, which is how the transport reports a refused connection: the trace line reads
  \<^verbatim>\<open>response.request\<close>, that read throws, and the callback is not called.
\<close>

theorem transport_error_without_response_throws:
  "createResponseHandler JSON (Function k) (ErrorInstance ''connect ECONNREFUSED'') None
     Undefined w =
   (Inl (TypeError ''Cannot read property request of undefined''), w)"
  by (simp add: handler_transport_error_undefined_response)

text \<open>
  C3. For a response with status 200 or 201 whose body \<^verbatim>\<open>JSON.parse\<close> accepts, the
  callback is called once with \<^verbatim>\<open>null\<close> and the parsed value.
\<close>

theorem success_status_delivers_parsed_body:
  assumes "\<not> truthy error"
    and "statusCode r = 200 \<or> statusCode r = 201"
    and "parse JSON body = Some data"
  shows "createResponseHandler JSON (Function k) error (Some r) body w =
           (Inr Undefined, w\<lparr>cb_calls := cb_calls w @ [(k, [Null, data])]\<rparr>)"
  using assms by (simp add: handler_success_parsed)

theorem success_status_delivers_parsed_body_witness:
  "\<not> truthy Null \<and>
   (statusCode (sample_response 201) = 200 \<or> statusCode (sample_response 201) = 201) \<and>
   parse JSON_sample (Str ''[]'') = Some (Arr []) \<and>
   createResponseHandler JSON_sample (Function 7) Null (Some (sample_response 201))
     (Str ''[]'') empty_world =
   (Inr Undefined, empty_world\<lparr>cb_calls := [(7, [Null, Arr []])]\<rparr>)"
  using success_status_delivers_parsed_body
          [of Null "sample_response 201" JSON_sample "Str ''[]''" "Arr []" 7 empty_world]
  by (simp add: sample_response_def JSON_sample_def empty_world_def)

text \<open>
  C4. For a response with a status other than 204 whose body \<^verbatim>\<open>JSON.parse\<close> rejects,
  the callback is called once with a FreshdeskError whose message is
  \<^verbatim>\<open>Not a JSON response from API\<close> and whose data is \<^verbatim>\<open>null\<close>. The statement does
  not depend on the status, so the branch of 200 and 201 and the default branch give the
  same.
\<close>

theorem non_json_body_delivers_fixed_error:
  assumes "\<not> truthy error"
    and "statusCode r \<noteq> 204"
    and "parse JSON body = None"
  shows "fst (createResponseHandler JSON (Function k) error (Some r) body w) = Inr Undefined \<and>
         cb_calls (snd (createResponseHandler JSON (Function k) error (Some r) body w)) =
           cb_calls w @
             [(k, [FreshdeskErrorInstance ''FreshdeskError''
                     (Str ''Not a JSON response from API'') Null])]"
proof (cases "statusCode r = 200 \<or> statusCode r = 201")
  case True
  with assms show ?thesis
    by (simp add: handler_success_not_json FreshdeskError_def cb_calls_debug)
next
  case False
  with assms show ?thesis
    by (simp add: handler_other_not_json FreshdeskError_def cb_calls_debug)
qed

theorem non_json_body_delivers_fixed_error_witness:
  "\<not> truthy Null \<and> statusCode (sample_response 200) \<noteq> 204 \<and>
   statusCode (sample_response 500) \<noteq> 204 \<and>
   parse JSON_sample (Str ''not json'') = None \<and>
   cb_calls (snd (createResponseHandler JSON_sample (Function 7) Null
                    (Some (sample_response 200)) (Str ''not json'') empty_world)) =
     [(7, [FreshdeskErrorInstance ''FreshdeskError''
             (Str ''Not a JSON response from API'') Null])] \<and>
   cb_calls (snd (createResponseHandler JSON_sample (Function 7) Null
                    (Some (sample_response 500)) (Str ''not json'') empty_world)) =
     [(7, [FreshdeskErrorInstance ''FreshdeskError''
             (Str ''Not a JSON response from API'') Null])]"
  using non_json_body_delivers_fixed_error
          [of Null "sample_response 200" JSON_sample "Str ''not json''" 7 empty_world]
        non_json_body_delivers_fixed_error
          [of Null "sample_response 500" JSON_sample "Str ''not json''" 7 empty_world]
  by (simp add: sample_response_def JSON_sample_def empty_world_def)

text \<open>
  C6. For a response with status 204 the callback is called once with \<^verbatim>\<open>null\<close> and
  \<^verbatim>\<open>null\<close>, whatever the body is; the body is not parsed.
\<close>

theorem no_content_delivers_null:
  assumes "\<not> truthy error"
    and "statusCode r = 204"
  shows "createResponseHandler JSON (Function k) error (Some r) body w =
           (Inr Undefined, w\<lparr>cb_calls := cb_calls w @ [(k, [Null, Null])]\<rparr>)"
  using assms by (simp add: handler_no_content)

theorem no_content_delivers_null_witness:
  "\<not> truthy Null \<and> statusCode (sample_response 204) = 204 \<and>
   parse JSON_sample (Str ''not json'') = None \<and>
   createResponseHandler JSON_sample (Function 7) Null (Some (sample_response 204))
     (Str ''not json'') empty_world =
   (Inr Undefined, empty_world\<lparr>cb_calls := [(7, [Null, Null])]\<rparr>)"
  using no_content_delivers_null
          [of Null "sample_response 204" JSON_sample 7 "Str ''not json''" empty_world]
  by (simp add: sample_response_def JSON_sample_def empty_world_def)

text \<open>
  C9. \<^verbatim>\<open>getTicket\<close> with id 42 hands one request to the transport: method GET, the URL
  the base URL followed by \<^verbatim>\<open>/api/v2/tickets/42\<close>, \<^verbatim>\<open>null\<close> for the query
  parameters and no body.
\<close>

theorem getTicket_42_request:
  "sent (snd (getTicket JSON transport this 42 cb w)) =
     sent w @
       [\<lparr>opt_method = ''GET'',
         opt_headers = [(''Content-Type'', ''application/json''),
                        (''Authorization'', private_auth this)],
         opt_url = baseUrl this @ ''/api/v2/tickets/42'',
         opt_qs = Null,
         opt_body = None\<rparr>]"
proof -
  have t: "ToString 42 = ''42''"
    by code_simp
  show ?thesis
    by (simp add: getTicket_def makeRequest_def Let_def t handler_sent split: prod.splits)
qed

text \<open>
  C10. The claim: for a status outside 200, 201 and 204 and the body \<^verbatim>\<open>null\<close>, which
  is JSON, the read of \<^verbatim>\<open>description\<close> is safe and the callback gets a classified
  result. The code does not do this: the body parses to \<^verbatim>\<open>null\<close>, the read
  \<^verbatim>\<open>data.description\<close> throws a TypeError after the trace line, and the callback is
  not called.
\<close>

theorem null_body_error_status_throws:
  "createResponseHandler JSON_sample (Function 7) Null (Some (sample_response 500))
     (Str ''null'') empty_world =
   (Inl (TypeError ''Cannot read property description of null''),
    empty_world\<lparr>debug_log :=
      [[Lit ''Unexpected/Error status ['', Val (Num 500),
        Lit ''], req path ['', Val (Str ''/api/v2/tickets''),
        Lit ''] raw body: '', Val Undefined]]\<rparr>)"
  by (simp add: createResponseHandler_def JSON_sample_def sample_response_def empty_world_def
        debug_def)

text \<open>
  C5. The claim: for a status outside 200, 201 and 204 and a body that parses, the
  message of the delivered error equals the field \<^verbatim>\<open>description\<close> of the parsed body.
  It fails where that field is falsy: for the body \<^verbatim>\<open>{"description":""}\<close> and status
  409 the field is the empty text and the message is the fixed text that
  \<^verbatim>\<open>FreshdeskError\<close> puts in the place of a falsy message.
\<close>

theorem empty_description_counterexample:
  "parse JSON_sample (Str ''{\"description\":\"\"}'') = Some (Obj [(''description'', Str [])]) \<and>
   get_description (Obj [(''description'', Str [])]) = Inr (Str []) \<and>
   cb_calls (snd (createResponseHandler JSON_sample (Function 7) Null
                    (Some (sample_response 409)) (Str ''{\"description\":\"\"}'') empty_world)) =
     [(7, [FreshdeskErrorInstance ''FreshdeskError'' (Str ''Error in Freshdesk's client API'')
             (Obj [(''description'', Str [])])])] \<and>
   Str ''Error in Freshdesk's client API'' \<noteq> Str []"
  by (simp add: createResponseHandler_def JSON_sample_def sample_response_def empty_world_def
        debug_def FreshdeskError_def)

text \<open>
  C5, as amended. For a status outside 200, 201 and 204 and a body that parses to a value
  on which the read of \<^verbatim>\<open>description\<close> succeeds (every value but \<^verbatim>\<open>null\<close>, see
  \<open>get_description_defined\<close>), the callback is called once with a FreshdeskError whose
  data is the parsed body and whose message is the field \<^verbatim>\<open>description\<close> when that is
  truthy, and \<^verbatim>\<open>Error in Freshdesk's client API\<close> otherwise. Status 409 is one of these
  statuses.
\<close>

theorem error_status_delivers_description_or_default:
  assumes "\<not> truthy error"
    and "statusCode r \<noteq> 200" and "statusCode r \<noteq> 201" and "statusCode r \<noteq> 204"
    and "parse JSON body = Some data"
    and "get_description data = Inr description"
  shows "fst (createResponseHandler JSON (Function k) error (Some r) body w) = Inr Undefined \<and>
         cb_calls (snd (createResponseHandler JSON (Function k) error (Some r) body w)) =
           cb_calls w @
             [(k, [FreshdeskErrorInstance ''FreshdeskError''
                     (if truthy description then description
                      else Str ''Error in Freshdesk's client API'')
                     data])]"
  using assms by (simp add: handler_other_parsed FreshdeskError_def cb_calls_debug)

theorem error_status_delivers_description_or_default_witness:
  "\<not> truthy Null \<and>
   statusCode (sample_response 409) \<noteq> 200 \<and> statusCode (sample_response 409) \<noteq> 201 \<and>
   statusCode (sample_response 409) \<noteq> 204 \<and>
   parse JSON_sample (Str ''{\"description\":\"Name has already been taken\"}'') =
     Some (Obj [(''description'', Str ''Name has already been taken'')]) \<and>
   get_description (Obj [(''description'', Str ''Name has already been taken'')]) =
     Inr (Str ''Name has already been taken'') \<and>
   cb_calls (snd (createResponseHandler JSON_sample (Function 7) Null
                    (Some (sample_response 409))
                    (Str ''{\"description\":\"Name has already been taken\"}'') empty_world)) =
     [(7, [FreshdeskErrorInstance ''FreshdeskError'' (Str ''Name has already been taken'')
             (Obj [(''description'', Str ''Name has already been taken'')])])]"
  using error_status_delivers_description_or_default
          [of Null "sample_response 409" JSON_sample
              "Str ''{\"description\":\"Name has already been taken\"}''"
              "Obj [(''description'', Str ''Name has already been taken'')]"
              "Str ''Name has already been taken''" 7 empty_world]
  by (simp add: sample_response_def JSON_sample_def empty_world_def)

text \<open>
  C7. The claim: for a status outside 200, 201 and 204 and a body that parses to an object
  without the field \<^verbatim>\<open>description\<close>, the message of the delivered error is
  \<^verbatim>\<open>undefined\<close>, with no generic message in its place. It fails: for the body
  \<^verbatim>\<open>{}\<close> and status 404 the message is \<^verbatim>\<open>Error in Freshdesk's client API\<close>.
\<close>

theorem missing_description_counterexample:
  "parse JSON_sample (Str ''{}'') = Some (Obj []) \<and>
   get_description (Obj []) = Inr Undefined \<and>
   cb_calls (snd (createResponseHandler JSON_sample (Function 7) Null
                    (Some (sample_response 404)) (Str ''{}'') empty_world)) =
     [(7, [FreshdeskErrorInstance ''FreshdeskError'' (Str ''Error in Freshdesk's client API'')
             (Obj [])])] \<and>
   Str ''Error in Freshdesk's client API'' \<noteq> Undefined"
  by (simp add: createResponseHandler_def JSON_sample_def sample_response_def empty_world_def
        debug_def FreshdeskError_def)

text \<open>
  C7, as amended. For a status outside 200, 201 and 204 and a body that parses to an object
  without the field \<^verbatim>\<open>description\<close>, the callback is called once with a FreshdeskError
  whose message is \<^verbatim>\<open>Error in Freshdesk's client API\<close> and whose data is the parsed
  object: no other field of the body is read for the message.
\<close>

theorem missing_description_delivers_default_message:
  assumes "\<not> truthy error"
    and "statusCode r \<noteq> 200" and "statusCode r \<noteq> 201" and "statusCode r \<noteq> 204"
    and "parse JSON body = Some (Obj kvs)"
    and "map_of kvs ''description'' = None"
  shows "fst (createResponseHandler JSON (Function k) error (Some r) body w) = Inr Undefined \<and>
         cb_calls (snd (createResponseHandler JSON (Function k) error (Some r) body w)) =
           cb_calls w @
             [(k, [FreshdeskErrorInstance ''FreshdeskError''
                     (Str ''Error in Freshdesk's client API'') (Obj kvs)])]"
proof -
  from assms(6) have "get_description (Obj kvs) = Inr Undefined"
    by simp
  with assms show ?thesis
    by (simp add: handler_other_parsed FreshdeskError_def cb_calls_debug)
qed

theorem missing_description_delivers_default_message_witness:
  "\<not> truthy Null \<and>
   statusCode (sample_response 500) \<noteq> 200 \<and> statusCode (sample_response 500) \<noteq> 201 \<and>
   statusCode (sample_response 500) \<noteq> 204 \<and>
   parse JSON_sample (Str ''{}'') = Some (Obj []) \<and>
   map_of ([] :: (string \<times> jsval) list) ''description'' = None \<and>
   cb_calls (snd (createResponseHandler JSON_sample (Function 7) Null
                    (Some (sample_response 500)) (Str ''{}'') empty_world)) =
     [(7, [FreshdeskErrorInstance ''FreshdeskError'' (Str ''Error in Freshdesk's client API'')
             (Obj [])])]"
  using missing_description_delivers_default_message
          [of Null "sample_response 500" JSON_sample "Str ''{}''" "[]" 7 empty_world]
  by (simp add: sample_response_def JSON_sample_def empty_world_def)

text \<open>
  C8. The claim: whenever \<^verbatim>\<open>data\<close> is present, falsy values such as 0 included, the
  request carries its JSON text as body. It fails for the falsy values: \<^verbatim>\<open>makeRequest\<close>
  tests \<^verbatim>\<open>if (data)\<close>, and for \<^verbatim>\<open>data = 0\<close>, whose JSON text is \<^verbatim>\<open>0\<close>, the request
  has no body.
\<close>

theorem falsy_body_data_counterexample:
  "stringify JSON_sample (Num 0) = Inr (Str ''0'') \<and>
   sent (snd (makeRequest JSON_sample sample_transport ''POST'' ''Basic eDpY''
                ''https://demo.freshdesk.com/api/v2/tickets'' Null (Num 0) (Function 7)
                empty_world)) =
     [\<lparr>opt_method = ''POST'',
       opt_headers = [(''Content-Type'', ''application/json''), (''Authorization'', ''Basic eDpY'')],
       opt_url = ''https://demo.freshdesk.com/api/v2/tickets'',
       opt_qs = Null,
       opt_body = None\<rparr>]"
  by (simp add: makeRequest_def Let_def handler_sent JSON_sample_def sample_transport_def
        empty_world_def)

text \<open>
  C8, as amended. When \<^verbatim>\<open>data\<close> is truthy and \<^verbatim>\<open>JSON.stringify(data)\<close> returns, the
  request handed to the transport has what it returned as body; when \<^verbatim>\<open>data\<close> is falsy
  (\<^verbatim>\<open>undefined\<close>, \<^verbatim>\<open>null\<close>, \<^verbatim>\<open>false\<close>, 0, \<^verbatim>\<open>NaN\<close>, the empty text) the request has
  no body. In both cases the request has the method, URL and query parameters given and the
  headers \<^verbatim>\<open>Content-Type: application/json\<close> and \<^verbatim>\<open>Authorization\<close> with the
  credential.
\<close>

theorem makeRequest_builds_request:
  "(truthy data \<longrightarrow> stringify JSON data = Inr text \<longrightarrow>
      sent (snd (makeRequest JSON transport method auth url qs data cb w)) =
        sent w @
          [\<lparr>opt_method = method,
            opt_headers = [(''Content-Type'', ''application/json''), (''Authorization'', auth)],
            opt_url = url, opt_qs = qs, opt_body = Some text\<rparr>]) \<and>
   (\<not> truthy data \<longrightarrow>
      sent (snd (makeRequest JSON transport method auth url qs data cb w)) =
        sent w @
          [\<lparr>opt_method = method,
            opt_headers = [(''Content-Type'', ''application/json''), (''Authorization'', auth)],
            opt_url = url, opt_qs = qs, opt_body = None\<rparr>])"
  by (simp add: makeRequest_def Let_def handler_sent split: prod.splits)

theorem makeRequest_builds_request_witness:
  "truthy (Obj [(''name'', Str ''Acme'')]) \<and>
   stringify JSON_sample (Obj [(''name'', Str ''Acme'')]) = Inr (Str ''{\"name\":\"Acme\"}'') \<and>
   sent (snd (makeRequest JSON_sample sample_transport ''POST'' ''Basic eDpY''
                ''https://demo.freshdesk.com/api/v2/companies'' Null
                (Obj [(''name'', Str ''Acme'')]) (Function 7) empty_world)) =
     [\<lparr>opt_method = ''POST'',
       opt_headers = [(''Content-Type'', ''application/json''), (''Authorization'', ''Basic eDpY'')],
       opt_url = ''https://demo.freshdesk.com/api/v2/companies'',
       opt_qs = Null,
       opt_body = Some (Str ''{\"name\":\"Acme\"}'')\<rparr>] \<and>
   \<not> truthy Null \<and>
   sent (snd (makeRequest JSON_sample sample_transport ''GET'' ''Basic eDpY''
                ''https://demo.freshdesk.com/api/v2/companies'' Null Null (Function 7)
                empty_world)) =
     [\<lparr>opt_method = ''GET'',
       opt_headers = [(''Content-Type'', ''application/json''), (''Authorization'', ''Basic eDpY'')],
       opt_url = ''https://demo.freshdesk.com/api/v2/companies'',
       opt_qs = Null,
       opt_body = None\<rparr>]"
  using makeRequest_builds_request
          [of "Obj [(''name'', Str ''Acme'')]" JSON_sample "Str ''{\"name\":\"Acme\"}''"
              sample_transport "''POST''" "''Basic eDpY''"
              "''https://demo.freshdesk.com/api/v2/companies''" Null "Function 7" empty_world]
        makeRequest_builds_request
          [of Null JSON_sample Undefined
              sample_transport "''GET''" "''Basic eDpY''"
              "''https://demo.freshdesk.com/api/v2/companies''" Null "Function 7" empty_world]
  by (simp add: JSON_sample_def empty_world_def)

end
